theory Spec2Isabelle
  imports Main "HOL-Library.Word" "HOL-Library.Sublist"
begin

section \<open>Values, exceptions and the HTTP boundary\<close>

text \<open>
  The client of \<^verbatim>\<open>betfair.py\<close> handles values it gets from parsed JSON bodies:
  a dict is kept as the list of its items (keys distinct, looked up with \<open>map_of\<close>).
  The program only stores these values, subscripts them and compares them with string
  constants, so the payload of a number plays no role.
\<close>

datatype json =
    JNull
  | JBool bool
  | JNum int
  | JStr string
  | JArr "json list"
  | JObj "(string \<times> json) list"

text \<open>
  Every \<^verbatim>\<open>raise\<close> of the source and every exception of a subscript or a library
  call is a value. \<open>BetfairException\<close> carries the two arguments the source gives it.
  \<open>LibraryError\<close> stands for an exception raised inside \<^verbatim>\<open>requests\<close> or
  \<^verbatim>\<open>base64\<close>.
\<close>

datatype error =
    BetfairException string json
  | KeyError json
  | IndexError
  | TypeError
  | ValueError
  | UnicodeDecodeError
  | JSONDecodeError
  | LibraryError string

type_synonym bytes = "8 word list"

record request =
  url :: string
  data :: string
  headers :: "(string \<times> json) list"
  cert :: "(string \<times> string) option"

text \<open>
  A response as the source reads it: \<^verbatim>\<open>resp.status_code\<close> and \<^verbatim>\<open>resp.json()\<close>,
  which raises when the body is not JSON (\<open>None\<close>).
\<close>

record response =
  status_code :: int
  json_body :: "json option"

text \<open>What \<^verbatim>\<open>requests.post\<close> does for one call: it raises or returns a response.\<close>

type_synonym outcome = "error + response"

datatype level = Info | Error | Critical

text \<open>
  The observable effects, in program order: a call of \<^verbatim>\<open>requests.post\<close>, a
  log record (format string and arguments) and a call of \<^verbatim>\<open>time.sleep\<close>.
\<close>

datatype event =
    Post request
  | Log level string "json list"
  | Sleep int

section \<open>The session manager\<close>

record betfair =
  app_key :: string
  login_status :: json
  session_token :: json
  alive_thread :: "nat option"
  alive_refresh_sec :: int

text \<open>
  A thread created by \<^verbatim>\<open>login\<close> runs \<^verbatim>\<open>__keep_alive_thread\<close> until an exception
  leaves its target function.
\<close>

datatype thread_status = Running | Terminated error

text \<open>
  The manager together with the threads started on it (a thread handle is its position
  in \<open>threads\<close>) and the effects so far. A call of a method and one turn of a thread's
  loop are taken as atomic steps on this state.
\<close>

record system =
  self :: betfair
  threads :: "thread_status list"
  trace :: "event list"

definition emit :: "event \<Rightarrow> system \<Rightarrow> system" where
  "emit e s = s\<lparr>trace := trace s @ [e]\<rparr>"

definition Betfair :: "string \<Rightarrow> int option \<Rightarrow> betfair" where
  "Betfair key refresh =
     \<lparr>app_key = key, login_status = JStr '''', session_token = JStr '''',
      alive_thread = None,
      alive_refresh_sec = (case refresh of None \<Rightarrow> 7200 | Some n \<Rightarrow> n)\<rparr>"

definition fresh :: "betfair \<Rightarrow> system" where
  "fresh b = \<lparr>self = b, threads = [], trace = []\<rparr>"

subsection \<open>Subscripts and string formatting\<close>

text \<open>\<^verbatim>\<open>obj[key]\<close> with a string key.\<close>

fun getitem :: "json \<Rightarrow> string \<Rightarrow> error + json" where
  "getitem (JObj kvs) k =
     (case map_of kvs k of None \<Rightarrow> Inl (KeyError (JStr k)) | Some v \<Rightarrow> Inr v)"
| "getitem _ k = Inl TypeError"

text \<open>
  \<^verbatim>\<open>template % args\<close> for the templates of this program, whose only conversion
  is \<^verbatim>\<open>%s\<close>, with string arguments.
\<close>

fun percent :: "string \<Rightarrow> string list \<Rightarrow> error + string" where
  "percent [] [] = Inr []"
| "percent [] (a # as) = Inl TypeError"
| "percent (c # t) as =
     (if c = CHR ''%'' then
        (case t of
           [] \<Rightarrow> Inl ValueError
         | d # t' \<Rightarrow>
             if d = CHR ''s'' then
               (case as of
                  [] \<Rightarrow> Inl TypeError
                | a # as' \<Rightarrow> map_sum id (\<lambda>r. a @ r) (percent t' as'))
             else Inl ValueError)
      else map_sum id (\<lambda>r. c # r) (percent t as))"

text \<open>\<^verbatim>\<open>bs.decode("ascii")\<close>.\<close>

definition decode_ascii :: "bytes \<Rightarrow> error + string" where
  "decode_ascii bs =
     (if list_all (\<lambda>b. unat b < 128) bs then Inr (map (\<lambda>b. char_of (unat b)) bs)
      else Inl UnicodeDecodeError)"

subsection \<open>login\<close>

text \<open>
  \<^verbatim>\<open>base64.b64decode\<close> is a parameter. The two arguments of the template are decoded
  left to right.
\<close>

definition login_payload ::
  "(string \<Rightarrow> error + bytes) \<Rightarrow> string \<Rightarrow> string \<Rightarrow> error + string" where
  "login_payload b64decode username password =
     (case b64decode username of Inl e \<Rightarrow> Inl e | Inr ub \<Rightarrow>
      case decode_ascii ub of Inl e \<Rightarrow> Inl e | Inr u \<Rightarrow>
      case b64decode password of Inl e \<Rightarrow> Inl e | Inr pb \<Rightarrow>
      case decode_ascii pb of Inl e \<Rightarrow> Inl e | Inr p \<Rightarrow>
      percent ''username=%s&password=%s'' [u, p])"

definition login_request :: "string \<Rightarrow> request" where
  "login_request payload =
     \<lparr>url = ''https://identitysso.betfair.com/api/certlogin'',
      data = payload,
      headers = [(''X-Application'', JStr ''SomeKey''),
                 (''Content-Type'', JStr ''application/x-www-form-urlencoded'')],
      cert = Some (''client-2048.crt'', ''client-2048.key'')\<rparr>"

text \<open>Lines 67 to 72: the three log records, then the thread is created and started.\<close>

definition start_keep_alive :: "system \<Rightarrow> system" where
  "start_keep_alive s =
     (let s1 = emit (Log Info ''Login status: {}'' [login_status (self s)]) s;
          s2 = emit (Log Info ''Session token: {}'' [session_token (self s1)]) s1;
          s3 = emit (Log Info ''Starting keep alive thread'' []) s2
      in s3\<lparr>self := (self s3)\<lparr>alive_thread := Some (length (threads s3))\<rparr>,
            threads := threads s3 @ [Running]\<rparr>)"

definition login ::
  "(string \<Rightarrow> error + bytes) \<Rightarrow> string \<Rightarrow> string \<Rightarrow> outcome \<Rightarrow> system
     \<Rightarrow> (error + unit) \<times> system" where
  "login b64decode username password out s =
     (case login_payload b64decode username password of
        Inl e \<Rightarrow> (Inl e, s)
      | Inr payload \<Rightarrow>
          let s1 = emit (Post (login_request payload)) s in
          (case out of
             Inl e \<Rightarrow> (Inl e, s1)
           | Inr resp \<Rightarrow>
               if status_code resp = 200 then
                 (case json_body resp of
                    None \<Rightarrow> (Inl JSONDecodeError, s1)
                  | Some resp_json \<Rightarrow>
                      (case getitem resp_json ''loginStatus'' of
                         Inl e \<Rightarrow> (Inl e, s1)
                       | Inr st \<Rightarrow>
                           if st = JStr ''INVALID_USERNAME_OR_PASSWORD'' then
                             (Inl (BetfairException ''login:loginStatus''
                                     (JStr ''INVALID_USERNAME_OR_PASSWORD'')),
                              emit (Log Error ''Login failed - invalid username or password'' []) s1)
                           else
                             let s2 = s1\<lparr>self := (self s1)\<lparr>login_status := st\<rparr>\<rparr> in
                             (case getitem resp_json ''sessionToken'' of
                                Inl e \<Rightarrow> (Inl e, s2)
                              | Inr tok \<Rightarrow>
                                  (Inr (),
                                   start_keep_alive
                                     (s2\<lparr>self := (self s2)\<lparr>session_token := tok\<rparr>\<rparr>)))))
               else
                 (Inl (BetfairException ''login'' (JStr ''Unknown error'')),
                  emit (Log Critical ''Login failed - unknown error'' []) s1)))"

subsection \<open>keep_alive and the keep-alive thread\<close>

definition keep_alive_request :: "betfair \<Rightarrow> request" where
  "keep_alive_request b =
     \<lparr>url = ''https://identitysso.betfair.com/api/keepAlive'',
      data = '''',
      headers = [(''Accept'', JStr ''application/json''),
                 (''X-Application'', JStr (app_key b)),
                 (''X-Authentication'', session_token b)],
      cert = None\<rparr>"

definition keep_alive :: "outcome \<Rightarrow> system \<Rightarrow> (error + unit) \<times> system" where
  "keep_alive out s =
     (let s1 = emit (Post (keep_alive_request (self s))) s in
      case out of
        Inl e \<Rightarrow> (Inl e, s1)
      | Inr resp \<Rightarrow>
          if status_code resp = 200 then
            (case json_body resp of
               None \<Rightarrow> (Inl JSONDecodeError, s1)
             | Some resp_json \<Rightarrow>
                 (case getitem resp_json ''status'' of
                    Inl e \<Rightarrow> (Inl e, s1)
                  | Inr st \<Rightarrow>
                      if st = JStr ''FAIL'' then
                        (Inl (BetfairException ''keepAlive:status'' (JStr ''FAIL'')), s1)
                      else
                        (case getitem resp_json ''error'' of
                           Inl e \<Rightarrow> (Inl e, s1)
                         | Inr er \<Rightarrow>
                             if er \<noteq> JStr '''' then
                               (Inl (BetfairException ''keepAlive:error'' er), s1)
                             else (Inr (), s1))))
          else (Inl (BetfairException ''keepAlive'' (JStr ''Unknown error'')), s1))"

text \<open>An exception that leaves the target function ends the thread.\<close>

definition die :: "nat \<Rightarrow> error \<Rightarrow> system \<Rightarrow> system" where
  "die tid e s = s\<lparr>threads := (threads s)[tid := Terminated e]\<rparr>"

text \<open>
  The \<^verbatim>\<open>while True\<close> loop of the running thread \<open>tid\<close>. It never returns by itself; the list holds
  what the endpoint does at the successive probes, and the loop is followed for as many
  turns as the list has entries. \<^verbatim>\<open>time.sleep\<close> raises ValueError on a negative
  length.
\<close>

fun keep_alive_loop :: "nat \<Rightarrow> outcome list \<Rightarrow> system \<Rightarrow> system" where
  "keep_alive_loop tid [] s = s"
| "keep_alive_loop tid (out # outs) s =
     (case keep_alive out s of
        (Inl e, s1) \<Rightarrow> die tid e s1
      | (Inr _, s1) \<Rightarrow>
          let s2 = emit (Log Info ''Keeping alive ...'' []) s1 in
          if alive_refresh_sec (self s2) < 0 then die tid ValueError s2
          else keep_alive_loop tid outs (emit (Sleep (alive_refresh_sec (self s2))) s2))"

definition keep_alive_thread :: "nat \<Rightarrow> outcome list \<Rightarrow> system \<Rightarrow> system" where
  "keep_alive_thread tid outs s =
     keep_alive_loop tid outs
       (emit (Log Info ''Keep alive thread started and set to {0:d} seconds''
                [JNum (alive_refresh_sec (self s))]) s)"

section \<open>The JSON-RPC methods\<close>

definition betting_url :: string where
  "betting_url = ''https://api.betfair.com/exchange/betting/json-rpc/v1''"

definition accounts_url :: string where
  "accounts_url = ''https://api.betfair.com/exchange/account/json-rpc/v1''"

definition call_aping_request :: "betfair \<Rightarrow> string \<Rightarrow> string \<Rightarrow> request" where
  "call_aping_request b jsonrpc_req u =
     \<lparr>url = u,
      data = jsonrpc_req,
      headers = [(''X-Application'', JStr (app_key b)),
                 (''X-Authentication'', session_token b),
                 (''content-type'', JStr ''application/json'')],
      cert = None\<rparr>"

definition call_aping :: "string \<Rightarrow> string \<Rightarrow> outcome \<Rightarrow> system \<Rightarrow> (error + json) \<times> system" where
  "call_aping jsonrpc_req u out s =
     (let s1 = emit (Post (call_aping_request (self s) jsonrpc_req u)) s in
      case out of
        Inl e \<Rightarrow> (Inl e, s1)
      | Inr resp \<Rightarrow>
          (case json_body resp of
             None \<Rightarrow> (Inl JSONDecodeError, s1)
           | Some j \<Rightarrow> (Inr j, s1)))"

text \<open>\<^verbatim>\<open>obj[0]\<close>; a dict parsed from JSON has string keys only.\<close>

fun getitem0 :: "json \<Rightarrow> error + json" where
  "getitem0 (JArr []) = Inl IndexError"
| "getitem0 (JArr (x # xs)) = Inr x"
| "getitem0 (JStr []) = Inl IndexError"
| "getitem0 (JStr (c # cs)) = Inr (JStr [c])"
| "getitem0 (JObj kvs) = Inl (KeyError (JNum 0))"
| "getitem0 _ = Inl TypeError"

text \<open>What a \<^verbatim>\<open>for\<close> clause iterates over: list elements, dict keys, characters.\<close>

fun iterate :: "json \<Rightarrow> error + json list" where
  "iterate (JArr xs) = Inr xs"
| "iterate (JObj kvs) = Inr (map (\<lambda>kv. JStr (fst kv)) kvs)"
| "iterate (JStr cs) = Inr (map (\<lambda>c. JStr [c]) cs)"
| "iterate _ = Inl TypeError"

text \<open>\<^verbatim>\<open>needle in obj\<close> for a string needle.\<close>

fun contains :: "string \<Rightarrow> json \<Rightarrow> error + bool" where
  "contains needle (JStr cs) = Inr (sublist needle cs)"
| "contains needle (JArr xs) = Inr (JStr needle \<in> set xs)"
| "contains needle (JObj kvs) = Inr (needle \<in> fst ` set kvs)"
| "contains needle _ = Inl TypeError"

text \<open>\<^verbatim>\<open>sep.join(xs)\<close>.\<close>

fun join :: "string \<Rightarrow> string list \<Rightarrow> string" where
  "join sep [] = []"
| "join sep [x] = x"
| "join sep (x # y # ys) = x @ sep @ join sep (y # ys)"

text \<open>
  \<^verbatim>\<open>float\<close> is a parameter of \<open>get_gbp_funds\<close>, with the type of its results.
\<close>

definition get_gbp_funds ::
  "(json \<Rightarrow> error + 'f) \<Rightarrow> outcome \<Rightarrow> system \<Rightarrow> (error + 'f) \<times> system" where
  \<open>get_gbp_funds float out s =
     (case call_aping
             ''{"jsonrpc": "2.0", "method": "AccountAPING/v1.0/getAccountFunds", "params": {"wallet":"UK"}, "id": 1}''
             accounts_url out s of
        (Inl e, s1) \<Rightarrow> (Inl e, s1)
      | (Inr account_response, s1) \<Rightarrow>
          (case getitem account_response ''result'' of
             Inl e \<Rightarrow> (Inl e, s1)
           | Inr r \<Rightarrow>
               (case getitem r ''availableToBetBalance'' of
                  Inl e \<Rightarrow> (Inl e, s1)
                | Inr v \<Rightarrow> (float v, s1))))\<close>

text \<open>The comprehension \<^verbatim>\<open>[i['competition'] for i in ...]\<close> stops at the first exception.\<close>

fun competitions_of :: "json list \<Rightarrow> error + json list" where
  "competitions_of [] = Inr []"
| "competitions_of (i # is) =
     (case getitem i ''competition'' of
        Inl e \<Rightarrow> Inl e
      | Inr c \<Rightarrow> map_sum id (\<lambda>cs. c # cs) (competitions_of is))"

definition get_football_competitions ::
  "outcome \<Rightarrow> system \<Rightarrow> (error + json list) \<times> system" where
  \<open>get_football_competitions out s =
     (case call_aping
             ''{"jsonrpc": "2.0", "method": "SportsAPING/v1.0/listCompetitions", "params": {"filter":{"eventTypeIds":["1"]}}, "id": 1}''
             betting_url out s of
        (Inl e, s1) \<Rightarrow> (Inl e, s1)
      | (Inr footballResponse, s1) \<Rightarrow>
          (case getitem footballResponse ''result'' of
             Inl e \<Rightarrow> (Inl e, s1)
           | Inr r \<Rightarrow>
               (case iterate r of
                  Inl e \<Rightarrow> (Inl e, s1)
                | Inr is \<Rightarrow> (competitions_of is, s1))))\<close>

text \<open>
  \<^verbatim>\<open>[i['event'] for i in ... if ' v ' in i['event']['name']]\<close>: the condition is
  evaluated first, then the element.
\<close>

fun games_of :: "json list \<Rightarrow> error + json list" where
  "games_of [] = Inr []"
| "games_of (i # is) =
     (case getitem i ''event'' of
        Inl e \<Rightarrow> Inl e
      | Inr ev \<Rightarrow>
          (case getitem ev ''name'' of
             Inl e \<Rightarrow> Inl e
           | Inr n \<Rightarrow>
               (case contains '' v '' n of
                  Inl e \<Rightarrow> Inl e
                | Inr True \<Rightarrow> map_sum id (\<lambda>gs. ev # gs) (games_of is)
                | Inr False \<Rightarrow> games_of is)))"

definition get_football_games ::
  "string \<Rightarrow> outcome \<Rightarrow> system \<Rightarrow> (error + json list) \<times> system" where
  \<open>get_football_games football_competition_id out s =
     (case percent
             ''{"jsonrpc": "2.0", "method": "SportsAPING/v1.0/listEvents", "params": {"filter": {"competitionIds":["%s"]}}, "id": 1}''
             [football_competition_id] of
        Inl e \<Rightarrow> (Inl e, s)
      | Inr football_ids_req \<Rightarrow>
          (case call_aping football_ids_req betting_url out s of
             (Inl e, s1) \<Rightarrow> (Inl e, s1)
           | (Inr football_ids_response, s1) \<Rightarrow>
               (case getitem football_ids_response ''result'' of
                  Inl e \<Rightarrow> (Inl e, s1)
                | Inr r \<Rightarrow>
                    (case iterate r of
                       Inl e \<Rightarrow> (Inl e, s1)
                     | Inr is \<Rightarrow> (games_of is, s1)))))\<close>

definition get_events_data ::
  "string list \<Rightarrow> outcome \<Rightarrow> system \<Rightarrow> (error + json) \<times> system" where
  \<open>get_events_data market_ids out s =
     (case percent
             ''{"jsonrpc": "2.0", "method": "SportsAPING/v1.0/listEvents", "params": {"filter": {"marketIds": [%s]}}, "id": 1}''
             [join '','' market_ids] of
        Inl e \<Rightarrow> (Inl e, s)
      | Inr event_req \<Rightarrow> call_aping event_req betting_url out s)\<close>

definition get_market_catalogue ::
  "string \<Rightarrow> string \<Rightarrow> outcome \<Rightarrow> system \<Rightarrow> (error + json) \<times> system" where
  \<open>get_market_catalogue event_id market_type_code out s =
     (case percent
             ''{"jsonrpc": "2.0", "method": "SportsAPING/v1.0/listMarketCatalogue", "params": {"filter": {"eventIds": ["%s"], "marketTypeCodes": ["%s"]}, "maxResults": "1"}, "id": 1}''
             [event_id, market_type_code] of
        Inl e \<Rightarrow> (Inl e, s)
      | Inr market_req \<Rightarrow>
          (case call_aping market_req betting_url out s of
             (Inl e, s1) \<Rightarrow> (Inl e, s1)
           | (Inr market_response, s1) \<Rightarrow>
               (case getitem market_response ''result'' of
                  Inl e \<Rightarrow> (Inl e, s1)
                | Inr r \<Rightarrow> (getitem0 r, s1))))\<close>

definition get_football_game_description ::
  "string \<Rightarrow> outcome \<Rightarrow> system \<Rightarrow> (error + json) \<times> system" where
  \<open>get_football_game_description market_id out s =
     (case percent
             ''{"jsonrpc": "2.0", "method": "SportsAPING/v1.0/listMarketCatalogue", "params": {"filter": {"marketIds": [%s]}, "maxResults": "1", "marketProjection": ["RUNNER_DESCRIPTION"]}, "id": 1}''
             [market_id] of
        Inl e \<Rightarrow> (Inl e, s)
      | Inr game_desc_req \<Rightarrow> call_aping game_desc_req betting_url out s)\<close>

definition get_market_data ::
  "string list \<Rightarrow> outcome \<Rightarrow> system \<Rightarrow> (error + json) \<times> system" where
  \<open>get_market_data market_ids out s =
     (case percent
             ''{"jsonrpc": "2.0", "method": "SportsAPING/v1.0/listMarketBook", "params": {"marketIds":[%s],"priceProjection":{"priceData":["EX_BEST_OFFERS"],"virtualise":"true"},"orderProjection":"EXECUTABLE","matchProjection":"ROLLED_UP_BY_AVG_PRICE"}, "id": 1}''
             [join '','' market_ids] of
        Inl e \<Rightarrow> (Inl e, s)
      | Inr market_data_req \<Rightarrow> call_aping market_data_req betting_url out s)\<close>

section \<open>A decoder to run the model with\<close>

text \<open>
  \<^verbatim>\<open>base64.b64decode(s)\<close> of CPython for a string argument, without validation:
  the string must be ASCII, characters outside the alphabet are skipped, and decoding
  stops at the padding that completes a group of four.
\<close>

definition b64_alphabet :: string where
  "b64_alphabet = ''ABCDEFGHIJKLMNOPQRSTUVWXYZabcdefghijklmnopqrstuvwxyz0123456789+/''"

fun index_of :: "'a \<Rightarrow> 'a list \<Rightarrow> nat option" where
  "index_of x [] = None"
| "index_of x (y # ys) = (if x = y then Some 0 else map_option Suc (index_of x ys))"

fun a2b_base64 :: "nat \<Rightarrow> nat \<Rightarrow> nat \<Rightarrow> string \<Rightarrow> error + bytes" where
  "a2b_base64 quad_pos leftchar pads [] =
     (if quad_pos \<noteq> 0 then Inl (LibraryError ''binascii.Error'') else Inr [])"
| "a2b_base64 quad_pos leftchar pads (c # cs) =
     (if c = CHR ''='' then
        (if 2 \<le> quad_pos \<and> 4 \<le> quad_pos + (pads + 1) then Inr []
         else a2b_base64 quad_pos leftchar (if 2 \<le> quad_pos then pads + 1 else pads) cs)
      else
        (case index_of c b64_alphabet of
           None \<Rightarrow> a2b_base64 quad_pos leftchar pads cs
         | Some v \<Rightarrow>
             if quad_pos = 0 then a2b_base64 1 v 0 cs
             else if quad_pos = 1 then
               map_sum id (\<lambda>bs. of_nat (leftchar * 4 + v div 16) # bs)
                 (a2b_base64 2 (v mod 16) 0 cs)
             else if quad_pos = 2 then
               map_sum id (\<lambda>bs. of_nat (leftchar * 16 + v div 4) # bs)
                 (a2b_base64 3 (v mod 4) 0 cs)
             else
               map_sum id (\<lambda>bs. of_nat (leftchar * 64 + v) # bs)
                 (a2b_base64 0 0 0 cs)))"

definition cpython_b64decode :: "string \<Rightarrow> error + bytes" where
  "cpython_b64decode s =
     (if list_all (\<lambda>c. (of_char c :: nat) < 128) s then a2b_base64 0 0 0 s
      else Inl ValueError)"

section \<open>Notions of the specification\<close>

text \<open>
  The specification's AuthenticationError and SessionError are both the source's
  \<open>BetfairException\<close>, raised by \<open>login\<close> and by \<open>keep_alive\<close>.
\<close>

fun is_betfair_exception :: "error + 'a \<Rightarrow> bool" where
  "is_betfair_exception (Inl (BetfairException tag detail)) = True"
| "is_betfair_exception _ = False"

text \<open>
  A successful probe, in the specification's words: HTTP 200 with a body \<open>{status, error}\<close>
  whose status is not \<open>FAIL\<close> and whose error is empty.
\<close>

definition probe_succeeds :: "outcome \<Rightarrow> bool" where
  "probe_succeeds out =
     (case out of
        Inl e \<Rightarrow> False
      | Inr resp \<Rightarrow>
          status_code resp = 200 \<and>
          (case json_body resp of
             None \<Rightarrow> False
           | Some body \<Rightarrow>
               (case getitem body ''status'' of
                  Inl e \<Rightarrow> False
                | Inr st \<Rightarrow> st \<noteq> JStr ''FAIL'' \<and> getitem body ''error'' = Inr (JStr ''''))))"

text \<open>The probes issued so far: the posts to the keep-alive endpoint.\<close>

fun is_probe :: "event \<Rightarrow> bool" where
  "is_probe (Post r) = (url r = ''https://identitysso.betfair.com/api/keepAlive'')"
| "is_probe _ = False"

definition probes :: "system \<Rightarrow> nat" where
  "probes s = length (filter is_probe (trace s))"

text \<open>The keep-alive tasks that are active: the threads that have not terminated.\<close>

definition active :: "system \<Rightarrow> nat" where
  "active s = length (filter (\<lambda>t. t = Running) (threads s))"

text \<open>
  The JSON-RPC 2.0 envelope with its four fields, as text, and the post that carries it
  with the three headers of the specification.
\<close>

definition envelope :: "string \<Rightarrow> string \<Rightarrow> string" where
  \<open>envelope method params =
     ''{"jsonrpc": "2.0", "method": "'' @ method @ ''", "params": '' @ params @ '', "id": 1}''\<close>

definition jsonrpc_post :: "betfair \<Rightarrow> string \<Rightarrow> string \<Rightarrow> string \<Rightarrow> event" where
  "jsonrpc_post b u method params =
     Post \<lparr>url = u, data = envelope method params,
           headers = [(''X-Application'', JStr (app_key b)),
                      (''X-Authentication'', session_token b),
                      (''content-type'', JStr ''application/json'')],
           cert = None\<rparr>"

subsection \<open>Sample responses\<close>

definition login_ok :: response where
  "login_ok = \<lparr>status_code = 200,
               json_body = Some (JObj [(''loginStatus'', JStr ''SUCCESS''),
                                       (''sessionToken'', JStr ''abc123'')])\<rparr>"

definition login_invalid :: response where
  "login_invalid = \<lparr>status_code = 200,
                    json_body = Some (JObj [(''loginStatus'',
                                             JStr ''INVALID_USERNAME_OR_PASSWORD'')])\<rparr>"

definition server_error :: response where
  "server_error = \<lparr>status_code = 503, json_body = None\<rparr>"

definition probe_ok :: response where
  "probe_ok = \<lparr>status_code = 200,
               json_body = Some (JObj [(''token'', JStr ''abc123''),
                                       (''product'', JStr ''key''),
                                       (''status'', JStr ''SUCCESS''),
                                       (''error'', JStr '''')])\<rparr>"

definition probe_fail :: response where
  "probe_fail = \<lparr>status_code = 200,
                 json_body = Some (JObj [(''token'', JStr ''''),
                                         (''product'', JStr ''key''),
                                         (''status'', JStr ''FAIL''),
                                         (''error'', JStr ''NO_SESSION'')])\<rparr>"

text \<open>A manager after one successful login, its keep-alive thread started.\<close>

definition logged_in :: system where
  "logged_in =
     \<lparr>self = \<lparr>app_key = ''key'', login_status = JStr ''SUCCESS'',
               session_token = JStr ''abc123'', alive_thread = Some 0,
               alive_refresh_sec = 7200\<rparr>,
      threads = [Running], trace = []\<rparr>"

text \<open>A new manager after two successful calls of \<open>login\<close> in succession.\<close>

definition logged_in_twice :: system where
  "logged_in_twice =
     snd (login cpython_b64decode ''dXNlcg=='' ''cGFzcw=='' (Inr login_ok)
            (snd (login cpython_b64decode ''dXNlcg=='' ''cGFzcw=='' (Inr login_ok)
                    (fresh (Betfair ''key'' None)))))"

section \<open>Basic facts\<close>

lemma emit_simps:
  "self (emit e s) = self s"
  "threads (emit e s) = threads s"
  "trace (emit e s) = trace s @ [e]"
  by (simp_all add: emit_def)

lemma die_simps:
  "self (die tid e s) = self s"
  "threads (die tid e s) = (threads s)[tid := Terminated e]"
  "trace (die tid e s) = trace s"
  by (simp_all add: die_def)

lemma start_keep_alive_simps:
  "self (start_keep_alive s) = (self s)\<lparr>alive_thread := Some (length (threads s))\<rparr>"
  "threads (start_keep_alive s) = threads s @ [Running]"
  "trace (start_keep_alive s) = trace s @
     [Log Info ''Login status: {}'' [login_status (self s)],
      Log Info ''Session token: {}'' [session_token (self s)],
      Log Info ''Starting keep alive thread'' []]"
  by (simp_all add: start_keep_alive_def Let_def emit_simps)

text \<open>The credentials \<open>user\<close> and \<open>pass\<close>, base64-encoded, give the form body.\<close>

lemma sample_payload:
  "login_payload cpython_b64decode ''dXNlcg=='' ''cGFzcw=='' = Inr ''username=user&password=pass''"
  by code_simp

text \<open>Whatever the endpoint does, \<open>keep_alive\<close> only adds its post to the trace.\<close>

lemma keep_alive_state:
  "snd (keep_alive out s) = emit (Post (keep_alive_request (self s))) s"
  by (simp add: keep_alive_def Let_def split: sum.splits option.splits)

lemma keep_alive_succeeds:
  "probe_succeeds out \<Longrightarrow> fst (keep_alive out s) = Inr ()"
  by (auto simp add: probe_succeeds_def keep_alive_def Let_def split: sum.splits option.splits)

lemma url_keep_alive_request [simp]:
  "url (keep_alive_request b) = ''https://identitysso.betfair.com/api/keepAlive''"
  by (simp add: keep_alive_request_def)

lemma probes_emit:
  "probes (emit e s) = (if is_probe e then Suc (probes s) else probes s)"
  by (simp add: probes_def emit_def)

lemma keep_alive_loop_self: "self (keep_alive_loop tid outs s) = self s"
proof (induction outs arbitrary: s)
  case Nil
  show ?case by simp
next
  case (Cons out outs)
  obtain r s1 where ka: "keep_alive out s = (r, s1)"
    by (cases "keep_alive out s")
  then have s1: "s1 = emit (Post (keep_alive_request (self s))) s"
    using keep_alive_state [of out s] by simp
  show ?case
    by (cases r) (simp_all add: ka s1 Let_def emit_simps die_simps Cons.IH)
qed

lemma keep_alive_loop_successes:
  "list_all probe_succeeds outs \<Longrightarrow> 0 \<le> alive_refresh_sec (self s) \<Longrightarrow>
     probes (keep_alive_loop tid outs s) = probes s + length outs
     \<and> threads (keep_alive_loop tid outs s) = threads s"
proof (induction outs arbitrary: s)
  case Nil
  show ?case by simp
next
  case (Cons out outs)
  from Cons.prems have ok: "fst (keep_alive out s) = Inr ()"
    by (simp add: keep_alive_succeeds)
  have ka: "keep_alive out s = (Inr (), emit (Post (keep_alive_request (self s))) s)"
    using ok keep_alive_state [of out s] by (cases "keep_alive out s") simp
  let ?s' = "emit (Sleep (alive_refresh_sec (self s)))
               (emit (Log Info ''Keeping alive ...'' [])
                  (emit (Post (keep_alive_request (self s))) s))"
  have step: "keep_alive_loop tid (out # outs) s = keep_alive_loop tid outs ?s'"
    using Cons.prems(2) by (simp add: ka Let_def emit_simps)
  have "probes (keep_alive_loop tid outs ?s') = probes ?s' + length outs
        \<and> threads (keep_alive_loop tid outs ?s') = threads ?s'"
    using Cons.prems by (intro Cons.IH) (simp_all add: emit_simps)
  then show ?case
    by (simp add: step probes_emit emit_simps del: keep_alive_loop.simps)
qed

lemma keep_alive_thread_self: "self (keep_alive_thread tid outs s) = self s"
  by (simp add: keep_alive_thread_def keep_alive_loop_self emit_simps)

lemma keep_alive_thread_successes:
  assumes "list_all probe_succeeds outs" and "0 \<le> alive_refresh_sec (self s)"
  shows "probes (keep_alive_thread tid outs s) = probes s + length outs
       \<and> threads (keep_alive_thread tid outs s) = threads s"
  unfolding keep_alive_thread_def
  using assms
    keep_alive_loop_successes [of outs
      "emit (Log Info ''Keep alive thread started and set to {0:d} seconds''
               [JNum (alive_refresh_sec (self s))]) s" tid]
  by (simp add: emit_simps probes_emit)

section \<open>login\<close>

text \<open>
  C1. When the credentials decode and the identity endpoint answers HTTP 200 with a body
  that carries a \<open>loginStatus\<close> other than \<open>INVALID_USERNAME_OR_PASSWORD\<close> and a
  \<open>sessionToken\<close>, \<open>login\<close> returns normally and the manager holds exactly that status
  and that token, from whatever state it was in. For the body
  \<open>{"loginStatus":"SUCCESS","sessionToken":"abc123"}\<close> the manager ends with status
  \<open>SUCCESS\<close> and token \<open>abc123\<close>.
\<close>

theorem login_success:
  assumes "login_payload dec username password = Inr payload"
    and "status_code resp = 200"
    and "json_body resp = Some body"
    and "getitem body ''loginStatus'' = Inr st"
    and "st \<noteq> JStr ''INVALID_USERNAME_OR_PASSWORD''"
    and "getitem body ''sessionToken'' = Inr tok"
  shows "fst (login dec username password (Inr resp) s) = Inr ()
       \<and> login_status (self (snd (login dec username password (Inr resp) s))) = st
       \<and> session_token (self (snd (login dec username password (Inr resp) s))) = tok"
  using assms by (simp add: login_def Let_def emit_simps start_keep_alive_simps)

theorem login_success_witness:
  "fst (login cpython_b64decode ''dXNlcg=='' ''cGFzcw=='' (Inr login_ok)
          (fresh (Betfair ''key'' None))) = Inr ()
   \<and> login_status (self (snd (login cpython_b64decode ''dXNlcg=='' ''cGFzcw=='' (Inr login_ok)
          (fresh (Betfair ''key'' None))))) = JStr ''SUCCESS''
   \<and> session_token (self (snd (login cpython_b64decode ''dXNlcg=='' ''cGFzcw=='' (Inr login_ok)
          (fresh (Betfair ''key'' None))))) = JStr ''abc123''"
  using login_success [of cpython_b64decode "''dXNlcg==''" "''cGFzcw==''"
          "''username=user&password=pass''" login_ok
          "JObj [(''loginStatus'', JStr ''SUCCESS''), (''sessionToken'', JStr ''abc123'')]"
          "JStr ''SUCCESS''" "JStr ''abc123''" "fresh (Betfair ''key'' None)"]
  by (simp add: sample_payload login_ok_def)

text \<open>
  C2. When the identity endpoint answers HTTP 200 with \<open>loginStatus\<close> equal to
  \<open>INVALID_USERNAME_OR_PASSWORD\<close>, \<open>login\<close> raises its exception for that status; the
  manager's fields and the threads are as before (only the post and one log record are
  added to the trace), and a later call of \<open>login\<close> behaves as it would have without
  the failed one.
\<close>

theorem login_invalid_credentials:
  assumes "login_payload dec username password = Inr payload"
    and "status_code resp = 200"
    and "json_body resp = Some body"
    and "getitem body ''loginStatus'' = Inr (JStr ''INVALID_USERNAME_OR_PASSWORD'')"
  shows "fst (login dec username password (Inr resp) s) =
           Inl (BetfairException ''login:loginStatus'' (JStr ''INVALID_USERNAME_OR_PASSWORD''))
       \<and> self (snd (login dec username password (Inr resp) s)) = self s
       \<and> threads (snd (login dec username password (Inr resp) s)) = threads s
       \<and> trace (snd (login dec username password (Inr resp) s)) =
           trace s @ [Post (login_request payload),
                      Log Error ''Login failed - invalid username or password'' []]
       \<and> fst (login dec username' password' out'
                (snd (login dec username password (Inr resp) s))) =
           fst (login dec username' password' out' s)
       \<and> self (snd (login dec username' password' out'
                (snd (login dec username password (Inr resp) s)))) =
           self (snd (login dec username' password' out' s))"
  using assms
  by (auto simp add: login_def Let_def emit_simps start_keep_alive_simps
        split: sum.splits option.splits)

theorem login_invalid_credentials_witness:
  "fst (login cpython_b64decode ''dXNlcg=='' ''cGFzcw=='' (Inr login_invalid)
          (fresh (Betfair ''key'' None))) =
     Inl (BetfairException ''login:loginStatus'' (JStr ''INVALID_USERNAME_OR_PASSWORD''))
   \<and> self (snd (login cpython_b64decode ''dXNlcg=='' ''cGFzcw=='' (Inr login_invalid)
          (fresh (Betfair ''key'' None)))) = Betfair ''key'' None
   \<and> threads (snd (login cpython_b64decode ''dXNlcg=='' ''cGFzcw=='' (Inr login_invalid)
          (fresh (Betfair ''key'' None)))) = []"
  using login_invalid_credentials [of cpython_b64decode "''dXNlcg==''" "''cGFzcw==''"
          "''username=user&password=pass''" login_invalid
          "JObj [(''loginStatus'', JStr ''INVALID_USERNAME_OR_PASSWORD'')]"
          "fresh (Betfair ''key'' None)"]
  by (simp add: sample_payload login_invalid_def fresh_def)

text \<open>
  C3. When the identity endpoint answers with a status other than 200, \<open>login\<close> raises
  its exception with the message \<open>Unknown error\<close>, and the manager's fields and the
  threads are as before.
\<close>

theorem login_unknown_error:
  assumes "login_payload dec username password = Inr payload"
    and "status_code resp \<noteq> 200"
  shows "fst (login dec username password (Inr resp) s) =
           Inl (BetfairException ''login'' (JStr ''Unknown error''))
       \<and> self (snd (login dec username password (Inr resp) s)) = self s
       \<and> threads (snd (login dec username password (Inr resp) s)) = threads s
       \<and> trace (snd (login dec username password (Inr resp) s)) =
           trace s @ [Post (login_request payload),
                      Log Critical ''Login failed - unknown error'' []]"
  using assms by (simp add: login_def Let_def emit_simps)

theorem login_unknown_error_witness:
  "fst (login cpython_b64decode ''dXNlcg=='' ''cGFzcw=='' (Inr server_error) logged_in) =
     Inl (BetfairException ''login'' (JStr ''Unknown error''))
   \<and> session_token (self (snd (login cpython_b64decode ''dXNlcg=='' ''cGFzcw==''
        (Inr server_error) logged_in))) = JStr ''abc123''
   \<and> login_status (self (snd (login cpython_b64decode ''dXNlcg=='' ''cGFzcw==''
        (Inr server_error) logged_in))) = JStr ''SUCCESS''"
  using login_unknown_error [of cpython_b64decode "''dXNlcg==''" "''cGFzcw==''"
          "''username=user&password=pass''" server_error logged_in]
  by (simp add: sample_payload server_error_def logged_in_def)

section \<open>keep_alive\<close>

text \<open>
  C4. For a response that, when its status is 200, has a body \<open>{status, error}\<close>:
  \<open>keep_alive\<close> raises its exception exactly when the status is not 200, or \<open>status\<close>
  is \<open>FAIL\<close>, or \<open>error\<close> is not the empty string; it returns normally exactly when
  the status is 200, \<open>status\<close> is not \<open>FAIL\<close> and \<open>error\<close> is empty. On a status
  other than 200 the message is \<open>Unknown error\<close>.
\<close>

theorem keep_alive_session_error:
  assumes "status_code resp = 200 \<Longrightarrow>
             json_body resp = Some body \<and> getitem body ''status'' = Inr st
             \<and> getitem body ''error'' = Inr er"
  shows "(is_betfair_exception (fst (keep_alive (Inr resp) s))
            \<longleftrightarrow> status_code resp \<noteq> 200 \<or> st = JStr ''FAIL'' \<or> er \<noteq> JStr '''')
       \<and> (fst (keep_alive (Inr resp) s) = Inr ()
            \<longleftrightarrow> status_code resp = 200 \<and> st \<noteq> JStr ''FAIL'' \<and> er = JStr '''')
       \<and> (status_code resp \<noteq> 200 \<longrightarrow>
            fst (keep_alive (Inr resp) s) =
              Inl (BetfairException ''keepAlive'' (JStr ''Unknown error'')))
       \<and> (status_code resp = 200 \<and> st = JStr ''FAIL'' \<longrightarrow>
            fst (keep_alive (Inr resp) s) =
              Inl (BetfairException ''keepAlive:status'' (JStr ''FAIL'')))
       \<and> (status_code resp = 200 \<and> st \<noteq> JStr ''FAIL'' \<and> er \<noteq> JStr '''' \<longrightarrow>
            fst (keep_alive (Inr resp) s) = Inl (BetfairException ''keepAlive:error'' er))"
  using assms by (cases "status_code resp = 200") (auto simp add: keep_alive_def Let_def)

theorem keep_alive_session_error_witness:
  "is_betfair_exception (fst (keep_alive (Inr probe_fail) logged_in))
   \<and> fst (keep_alive (Inr probe_fail) logged_in) =
       Inl (BetfairException ''keepAlive:status'' (JStr ''FAIL''))
   \<and> fst (keep_alive (Inr probe_ok) logged_in) = Inr ()
   \<and> fst (keep_alive (Inr server_error) logged_in) =
       Inl (BetfairException ''keepAlive'' (JStr ''Unknown error''))"
  using keep_alive_session_error [of probe_fail
          "JObj [(''token'', JStr ''''), (''product'', JStr ''key''),
                 (''status'', JStr ''FAIL''), (''error'', JStr ''NO_SESSION'')]"
          "JStr ''FAIL''" "JStr ''NO_SESSION''" logged_in]
        keep_alive_session_error [of probe_ok
          "JObj [(''token'', JStr ''abc123''), (''product'', JStr ''key''),
                 (''status'', JStr ''SUCCESS''), (''error'', JStr '''')]"
          "JStr ''SUCCESS''" "JStr ''''" logged_in]
        keep_alive_session_error [of server_error JNull JNull JNull logged_in]
  by (simp add: probe_fail_def probe_ok_def server_error_def)

text \<open>
  C5. \<open>keep_alive\<close> leaves the manager's fields as they are, and so does the keep-alive
  loop over any number of probes. When the refresh interval is not negative and the
  \<open>N\<close> probes all succeed, the loop issues all \<open>N\<close> of them and stays running.
\<close>

theorem keep_alive_frame:
  "self (snd (keep_alive out s)) = self s
   \<and> self (keep_alive_loop tid outs s) = self s
   \<and> self (keep_alive_thread tid outs s) = self s
   \<and> (list_all probe_succeeds outs \<and> 0 \<le> alive_refresh_sec (self s) \<longrightarrow>
        probes (keep_alive_loop tid outs s) = probes s + length outs
        \<and> threads (keep_alive_loop tid outs s) = threads s)"
  by (simp add: keep_alive_state emit_simps keep_alive_loop_self keep_alive_thread_self
        keep_alive_loop_successes)

theorem keep_alive_frame_witness:
  "list_all probe_succeeds [Inr probe_ok, Inr probe_ok, Inr probe_ok]
   \<and> session_token (self (keep_alive_loop 0 [Inr probe_ok, Inr probe_ok, Inr probe_ok] logged_in))
       = JStr ''abc123''
   \<and> login_status (self (keep_alive_loop 0 [Inr probe_ok, Inr probe_ok, Inr probe_ok] logged_in))
       = JStr ''SUCCESS''
   \<and> probes (keep_alive_loop 0 [Inr probe_ok, Inr probe_ok, Inr probe_ok] logged_in) = 3"
proof -
  have ok: "list_all probe_succeeds [Inr probe_ok, Inr probe_ok, Inr probe_ok]"
    by (simp add: probe_succeeds_def probe_ok_def)
  have nn: "0 \<le> alive_refresh_sec (self logged_in)"
    by (simp add: logged_in_def)
  show ?thesis
    using ok nn
      keep_alive_frame [of "Inr probe_ok" logged_in 0 "[Inr probe_ok, Inr probe_ok, Inr probe_ok]"]
    by (simp add: logged_in_def probes_def)
qed

text \<open>
  C6, as the code has it. When a probe fails, that is when \<open>keep_alive\<close> raises, the
  exception leaves the loop: the thread terminates with it, and after the post of the
  failing probe the thread issues nothing more, neither a sleep nor a further probe.
\<close>

theorem keep_alive_loop_ends_on_failure:
  assumes "fst (keep_alive out s) = Inl e"
    and "tid < length (threads s)"
  shows "threads (keep_alive_loop tid (out # outs) s) ! tid = Terminated e
       \<and> trace (keep_alive_loop tid (out # outs) s) =
           trace s @ [Post (keep_alive_request (self s))]
       \<and> probes (keep_alive_loop tid (out # outs) s) = probes s + 1"
proof -
  have ka: "keep_alive out s = (Inl e, emit (Post (keep_alive_request (self s))) s)"
    using assms(1) keep_alive_state [of out s] by (cases "keep_alive out s") simp
  show ?thesis
    using assms(2) by (simp add: ka die_simps emit_simps probes_def)
qed

theorem keep_alive_loop_ends_on_failure_witness:
  "threads (keep_alive_loop 0 [Inr probe_fail, Inr probe_ok] logged_in) ! 0
     = Terminated (BetfairException ''keepAlive:status'' (JStr ''FAIL''))
   \<and> probes (keep_alive_loop 0 [Inr probe_fail, Inr probe_ok] logged_in) = 1"
proof -
  have f: "fst (keep_alive (Inr probe_fail) logged_in)
             = Inl (BetfairException ''keepAlive:status'' (JStr ''FAIL''))"
    by (simp add: keep_alive_def probe_fail_def Let_def)
  have t: "0 < length (threads logged_in)"
    by (simp add: logged_in_def)
  show ?thesis
    using keep_alive_loop_ends_on_failure [OF f t, of "[Inr probe_ok]"]
    by (simp add: probes_def logged_in_def del: keep_alive_loop.simps)
qed

text \<open>
  The claim C6 as it is written fails: the thread of a logged-in manager whose first
  probe is answered with status \<open>FAIL\<close> terminates with the exception, and its whole
  trace is the start record and that one post, although a successful answer was waiting
  for a second probe.
\<close>

theorem keep_alive_loop_continues_counterexample:
  "threads (keep_alive_thread 0 [Inr probe_fail, Inr probe_ok] logged_in)
     = [Terminated (BetfairException ''keepAlive:status'' (JStr ''FAIL''))]
   \<and> trace (keep_alive_thread 0 [Inr probe_fail, Inr probe_ok] logged_in)
     = [Log Info ''Keep alive thread started and set to {0:d} seconds'' [JNum 7200],
        Post (keep_alive_request (self logged_in))]"
  by (simp add: keep_alive_thread_def keep_alive_def probe_fail_def logged_in_def Let_def
        emit_def die_def)

section \<open>The keep-alive threads of one manager\<close>

text \<open>
  Every successful \<open>login\<close> creates and starts one more keep-alive thread and stops
  none: the threads started before are still there, the new one is running, and the
  handle \<open>alive_thread\<close> is overwritten with the new one.
\<close>

lemma login_adds_keep_alive_thread:
  assumes "login_payload dec username password = Inr payload"
    and "status_code resp = 200"
    and "json_body resp = Some body"
    and "getitem body ''loginStatus'' = Inr st"
    and "st \<noteq> JStr ''INVALID_USERNAME_OR_PASSWORD''"
    and "getitem body ''sessionToken'' = Inr tok"
  shows "threads (snd (login dec username password (Inr resp) s)) = threads s @ [Running]
       \<and> alive_thread (self (snd (login dec username password (Inr resp) s))) =
           Some (length (threads s))
       \<and> active (snd (login dec username password (Inr resp) s)) = active s + 1"
  using assms
  by (simp add: login_def Let_def emit_simps start_keep_alive_simps active_def)

lemma logged_in_twice_state:
  "self logged_in_twice =
     \<lparr>app_key = ''key'', login_status = JStr ''SUCCESS'', session_token = JStr ''abc123'',
      alive_thread = Some 1, alive_refresh_sec = 7200\<rparr>"
  "threads logged_in_twice = [Running, Running]"
  by (simp_all add: logged_in_twice_def login_def sample_payload login_ok_def fresh_def
        Betfair_def Let_def emit_def start_keep_alive_def)

text \<open>
  C7 at two successful calls of \<open>login\<close> in succession on a new manager: both return
  normally and two keep-alive threads are running, the handle referring to the second.
  When each of the two threads then runs, its probe answered successfully, both are
  still running and two probes have been issued.
\<close>

theorem login_twice_two_threads:
  "fst (login cpython_b64decode ''dXNlcg=='' ''cGFzcw=='' (Inr login_ok)
          (fresh (Betfair ''key'' None))) = Inr ()
   \<and> fst (login cpython_b64decode ''dXNlcg=='' ''cGFzcw=='' (Inr login_ok)
          (snd (login cpython_b64decode ''dXNlcg=='' ''cGFzcw=='' (Inr login_ok)
                  (fresh (Betfair ''key'' None))))) = Inr ()
   \<and> threads logged_in_twice = [Running, Running]
   \<and> active logged_in_twice = 2
   \<and> alive_thread (self logged_in_twice) = Some 1
   \<and> threads (keep_alive_thread 1 [Inr probe_ok]
                (keep_alive_thread 0 [Inr probe_ok] logged_in_twice)) = [Running, Running]
   \<and> probes (keep_alive_thread 1 [Inr probe_ok]
                (keep_alive_thread 0 [Inr probe_ok] logged_in_twice)) = 2"
proof -
  have ok: "list_all probe_succeeds [Inr probe_ok]"
    by (simp add: probe_succeeds_def probe_ok_def)
  have p0: "probes logged_in_twice = 0"
    by (simp add: probes_def logged_in_twice_def login_def sample_payload login_ok_def
          fresh_def Betfair_def Let_def emit_def start_keep_alive_def login_request_def)
  have nn: "0 \<le> alive_refresh_sec (self logged_in_twice)"
    by (simp add: logged_in_twice_state)
  have t0: "probes (keep_alive_thread 0 [Inr probe_ok] logged_in_twice) = 1
            \<and> threads (keep_alive_thread 0 [Inr probe_ok] logged_in_twice) = [Running, Running]"
    using keep_alive_thread_successes [OF ok nn, of 0]
    by (simp add: logged_in_twice_state p0)
  have nn': "0 \<le> alive_refresh_sec (self (keep_alive_thread 0 [Inr probe_ok] logged_in_twice))"
    by (simp add: keep_alive_thread_self logged_in_twice_state)
  have t1: "probes (keep_alive_thread 1 [Inr probe_ok]
                      (keep_alive_thread 0 [Inr probe_ok] logged_in_twice)) = 2
            \<and> threads (keep_alive_thread 1 [Inr probe_ok]
                      (keep_alive_thread 0 [Inr probe_ok] logged_in_twice)) = [Running, Running]"
    using keep_alive_thread_successes [OF ok nn', of 1]
    by (simp add: t0)
  have l1: "fst (login cpython_b64decode ''dXNlcg=='' ''cGFzcw=='' (Inr login_ok)
                   (fresh (Betfair ''key'' None))) = Inr ()"
    by (simp add: login_def sample_payload login_ok_def Let_def)
  have l2: "fst (login cpython_b64decode ''dXNlcg=='' ''cGFzcw=='' (Inr login_ok)
                   (snd (login cpython_b64decode ''dXNlcg=='' ''cGFzcw=='' (Inr login_ok)
                           (fresh (Betfair ''key'' None))))) = Inr ()"
    by (simp add: login_def sample_payload login_ok_def Let_def)
  show ?thesis
    using l1 l2 t1 by (simp add: logged_in_twice_state active_def)
qed

section \<open>The requests\<close>

text \<open>The form body of \<open>login\<close> is made of the two decoded credentials.\<close>

lemma login_payload_form:
  assumes "dec username = Inr ub" and "decode_ascii ub = Inr u"
    and "dec password = Inr pb" and "decode_ascii pb = Inr p"
  shows "login_payload dec username password = Inr (''username='' @ u @ ''&password='' @ p)"
  using assms by (simp add: login_payload_def)

text \<open>
  C8 at a manager constructed with the application key \<open>MyAppKey\<close>: the post of \<open>login\<close>
  has the form body \<open>username=user&password=pass\<close> of the decoded credentials, and its
  \<open>X-Application\<close> header is the literal \<open>SomeKey\<close>, not the manager's key.
\<close>

theorem login_sends_fixed_application_header:
  "trace (snd (login cpython_b64decode ''dXNlcg=='' ''cGFzcw=='' (Inr login_ok)
                 (fresh (Betfair ''MyAppKey'' None)))) =
     [Post \<lparr>url = ''https://identitysso.betfair.com/api/certlogin'',
            data = ''username=user&password=pass'',
            headers = [(''X-Application'', JStr ''SomeKey''),
                       (''Content-Type'', JStr ''application/x-www-form-urlencoded'')],
            cert = Some (''client-2048.crt'', ''client-2048.key'')\<rparr>,
      Log Info ''Login status: {}'' [JStr ''SUCCESS''],
      Log Info ''Session token: {}'' [JStr ''abc123''],
      Log Info ''Starting keep alive thread'' []]
   \<and> app_key (self (snd (login cpython_b64decode ''dXNlcg=='' ''cGFzcw=='' (Inr login_ok)
                 (fresh (Betfair ''MyAppKey'' None))))) = ''MyAppKey''"
  by (simp add: login_def sample_payload login_ok_def fresh_def Betfair_def Let_def
        emit_def start_keep_alive_def login_request_def)

text \<open>What \<open>__call_aping\<close> adds to the trace, whatever the endpoint does.\<close>

lemma call_aping_trace:
  "trace (snd (call_aping req u out s)) = trace s @ [Post (call_aping_request (self s) req u)]"
  by (simp add: call_aping_def Let_def emit_simps split: sum.splits option.splits)

lemma call_aping_envelope:
  "trace (snd (call_aping (envelope m p) u out s)) = trace s @ [jsonrpc_post (self s) u m p]"
  by (simp add: call_aping_trace call_aping_request_def jsonrpc_post_def)

text \<open>The request texts of the source are envelopes.\<close>

lemma account_req:
  \<open>''{"jsonrpc": "2.0", "method": "AccountAPING/v1.0/getAccountFunds", "params": {"wallet":"UK"}, "id": 1}''
     = envelope ''AccountAPING/v1.0/getAccountFunds'' ''{"wallet":"UK"}''\<close>
  by (simp add: envelope_def)

lemma football_req:
  \<open>''{"jsonrpc": "2.0", "method": "SportsAPING/v1.0/listCompetitions", "params": {"filter":{"eventTypeIds":["1"]}}, "id": 1}''
     = envelope ''SportsAPING/v1.0/listCompetitions'' ''{"filter":{"eventTypeIds":["1"]}}''\<close>
  by (simp add: envelope_def)

lemma football_ids_req:
  \<open>percent ''{"jsonrpc": "2.0", "method": "SportsAPING/v1.0/listEvents", "params": {"filter": {"competitionIds":["%s"]}}, "id": 1}''
      [cid]
     = Inr (envelope ''SportsAPING/v1.0/listEvents''
             (''{"filter": {"competitionIds":["'' @ cid @ ''"]}}''))\<close>
  by (simp add: envelope_def)

lemma event_req:
  \<open>percent ''{"jsonrpc": "2.0", "method": "SportsAPING/v1.0/listEvents", "params": {"filter": {"marketIds": [%s]}}, "id": 1}''
      [ids]
     = Inr (envelope ''SportsAPING/v1.0/listEvents''
             (''{"filter": {"marketIds": ['' @ ids @ '']}}''))\<close>
  by (simp add: envelope_def)

lemma market_req:
  \<open>percent ''{"jsonrpc": "2.0", "method": "SportsAPING/v1.0/listMarketCatalogue", "params": {"filter": {"eventIds": ["%s"], "marketTypeCodes": ["%s"]}, "maxResults": "1"}, "id": 1}''
      [eid, code]
     = Inr (envelope ''SportsAPING/v1.0/listMarketCatalogue''
             (''{"filter": {"eventIds": ["'' @ eid @ ''"], "marketTypeCodes": ["'' @ code
                @ ''"]}, "maxResults": "1"}''))\<close>
  by (simp add: envelope_def)

lemma game_desc_req:
  \<open>percent ''{"jsonrpc": "2.0", "method": "SportsAPING/v1.0/listMarketCatalogue", "params": {"filter": {"marketIds": [%s]}, "maxResults": "1", "marketProjection": ["RUNNER_DESCRIPTION"]}, "id": 1}''
      [mid]
     = Inr (envelope ''SportsAPING/v1.0/listMarketCatalogue''
             (''{"filter": {"marketIds": ['' @ mid
                @ '']}, "maxResults": "1", "marketProjection": ["RUNNER_DESCRIPTION"]}''))\<close>
  by (simp add: envelope_def)

lemma market_data_req:
  \<open>percent ''{"jsonrpc": "2.0", "method": "SportsAPING/v1.0/listMarketBook", "params": {"marketIds":[%s],"priceProjection":{"priceData":["EX_BEST_OFFERS"],"virtualise":"true"},"orderProjection":"EXECUTABLE","matchProjection":"ROLLED_UP_BY_AVG_PRICE"}, "id": 1}''
      [ids]
     = Inr (envelope ''SportsAPING/v1.0/listMarketBook''
             (''{"marketIds":['' @ ids
                @ ''],"priceProjection":{"priceData":["EX_BEST_OFFERS"],"virtualise":"true"},"orderProjection":"EXECUTABLE","matchProjection":"ROLLED_UP_BY_AVG_PRICE"}''))\<close>
  by (simp add: envelope_def)

text \<open>Each method leaves the state as \<open>__call_aping\<close> left it.\<close>

lemma get_gbp_funds_state:
  \<open>snd (get_gbp_funds float out s) =
     snd (call_aping (envelope ''AccountAPING/v1.0/getAccountFunds'' ''{"wallet":"UK"}'')
            accounts_url out s)\<close>
  unfolding get_gbp_funds_def account_req
  by (simp split: prod.splits sum.splits)

lemma get_football_competitions_state:
  \<open>snd (get_football_competitions out s) =
     snd (call_aping (envelope ''SportsAPING/v1.0/listCompetitions''
                        ''{"filter":{"eventTypeIds":["1"]}}'')
            betting_url out s)\<close>
  unfolding get_football_competitions_def football_req
  by (simp split: prod.splits sum.splits)

lemma get_football_games_state:
  \<open>snd (get_football_games cid out s) =
     snd (call_aping (envelope ''SportsAPING/v1.0/listEvents''
                        (''{"filter": {"competitionIds":["'' @ cid @ ''"]}}''))
            betting_url out s)\<close>
  unfolding get_football_games_def football_ids_req
  by (simp split: prod.splits sum.splits)

lemma get_events_data_state:
  \<open>snd (get_events_data ids out s) =
     snd (call_aping (envelope ''SportsAPING/v1.0/listEvents''
                        (''{"filter": {"marketIds": ['' @ join '','' ids @ '']}}''))
            betting_url out s)\<close>
  unfolding get_events_data_def event_req
  by simp

lemma get_market_catalogue_state:
  \<open>snd (get_market_catalogue eid code out s) =
     snd (call_aping (envelope ''SportsAPING/v1.0/listMarketCatalogue''
                        (''{"filter": {"eventIds": ["'' @ eid @ ''"], "marketTypeCodes": ["''
                           @ code @ ''"]}, "maxResults": "1"}''))
            betting_url out s)\<close>
  unfolding get_market_catalogue_def market_req
  by (simp split: prod.splits sum.splits)

lemma get_football_game_description_state:
  \<open>snd (get_football_game_description mid out s) =
     snd (call_aping (envelope ''SportsAPING/v1.0/listMarketCatalogue''
                        (''{"filter": {"marketIds": ['' @ mid
                           @ '']}, "maxResults": "1", "marketProjection": ["RUNNER_DESCRIPTION"]}''))
            betting_url out s)\<close>
  unfolding get_football_game_description_def game_desc_req
  by simp

lemma get_market_data_state:
  \<open>snd (get_market_data ids out s) =
     snd (call_aping (envelope ''SportsAPING/v1.0/listMarketBook''
                        (''{"marketIds":['' @ join '','' ids
                           @ ''],"priceProjection":{"priceData":["EX_BEST_OFFERS"],"virtualise":"true"},"orderProjection":"EXECUTABLE","matchProjection":"ROLLED_UP_BY_AVG_PRICE"}''))
            betting_url out s)\<close>
  unfolding get_market_data_def market_data_req
  by simp

text \<open>
  C9. Each of the seven JSON-RPC methods issues exactly one post, to the accounts or the
  betting endpoint, whose headers are \<open>X-Application\<close> with the manager's application
  key, \<open>X-Authentication\<close> with its current session token and \<open>content-type\<close>
  \<open>application/json\<close>, and whose body is the text of an envelope with the fields
  \<open>jsonrpc\<close>, \<open>method\<close>, \<open>params\<close> and \<open>id\<close>, the arguments of the method inserted in
  \<open>params\<close> as they are.
\<close>

theorem jsonrpc_calls_post_envelope:
  \<open>trace (snd (get_gbp_funds float out s)) =
     trace s @ [jsonrpc_post (self s) accounts_url ''AccountAPING/v1.0/getAccountFunds''
                  ''{"wallet":"UK"}'']
   \<and> trace (snd (get_football_competitions out s)) =
     trace s @ [jsonrpc_post (self s) betting_url ''SportsAPING/v1.0/listCompetitions''
                  ''{"filter":{"eventTypeIds":["1"]}}'']
   \<and> trace (snd (get_football_games cid out s)) =
     trace s @ [jsonrpc_post (self s) betting_url ''SportsAPING/v1.0/listEvents''
                  (''{"filter": {"competitionIds":["'' @ cid @ ''"]}}'')]
   \<and> trace (snd (get_events_data ids out s)) =
     trace s @ [jsonrpc_post (self s) betting_url ''SportsAPING/v1.0/listEvents''
                  (''{"filter": {"marketIds": ['' @ join '','' ids @ '']}}'')]
   \<and> trace (snd (get_market_catalogue eid code out s)) =
     trace s @ [jsonrpc_post (self s) betting_url ''SportsAPING/v1.0/listMarketCatalogue''
                  (''{"filter": {"eventIds": ["'' @ eid @ ''"], "marketTypeCodes": ["''
                     @ code @ ''"]}, "maxResults": "1"}'')]
   \<and> trace (snd (get_football_game_description mid out s)) =
     trace s @ [jsonrpc_post (self s) betting_url ''SportsAPING/v1.0/listMarketCatalogue''
                  (''{"filter": {"marketIds": ['' @ mid
                     @ '']}, "maxResults": "1", "marketProjection": ["RUNNER_DESCRIPTION"]}'')]
   \<and> trace (snd (get_market_data ids out s)) =
     trace s @ [jsonrpc_post (self s) betting_url ''SportsAPING/v1.0/listMarketBook''
                  (''{"marketIds":['' @ join '','' ids
                     @ ''],"priceProjection":{"priceData":["EX_BEST_OFFERS"],"virtualise":"true"},"orderProjection":"EXECUTABLE","matchProjection":"ROLLED_UP_BY_AVG_PRICE"}'')]\<close>
  by (simp only: get_gbp_funds_state get_football_competitions_state get_football_games_state
        get_events_data_state get_market_catalogue_state get_football_game_description_state
        get_market_data_state call_aping_envelope simp_thms)

text \<open>
  C10. A manager as the constructor leaves it has the empty string as login status and
  as session token and no keep-alive thread, and the refresh interval defaults to 7200.
  On such a manager \<open>keep_alive\<close>, \<open>__call_aping\<close> and with it a JSON-RPC method issue
  their post all the same, with the empty string as \<open>X-Authentication\<close>, whatever the
  endpoint then does.
\<close>

theorem fresh_manager_posts_empty_token:
  \<open>login_status (Betfair key refresh) = JStr ''''
   \<and> session_token (Betfair key refresh) = JStr ''''
   \<and> alive_thread (Betfair key refresh) = None
   \<and> alive_refresh_sec (Betfair key None) = 7200
   \<and> threads (fresh (Betfair key refresh)) = []
   \<and> trace (snd (keep_alive out (fresh (Betfair key refresh)))) =
       [Post \<lparr>url = ''https://identitysso.betfair.com/api/keepAlive'', data = '''',
              headers = [(''Accept'', JStr ''application/json''),
                         (''X-Application'', JStr key),
                         (''X-Authentication'', JStr '''')],
              cert = None\<rparr>]
   \<and> trace (snd (call_aping req u out (fresh (Betfair key refresh)))) =
       [Post \<lparr>url = u, data = req,
              headers = [(''X-Application'', JStr key),
                         (''X-Authentication'', JStr ''''),
                         (''content-type'', JStr ''application/json'')],
              cert = None\<rparr>]
   \<and> trace (snd (get_gbp_funds float out (fresh (Betfair key refresh)))) =
       [Post \<lparr>url = ''https://api.betfair.com/exchange/account/json-rpc/v1'',
              data = ''{"jsonrpc": "2.0", "method": "AccountAPING/v1.0/getAccountFunds", "params": {"wallet":"UK"}, "id": 1}'',
              headers = [(''X-Application'', JStr key),
                         (''X-Authentication'', JStr ''''),
                         (''content-type'', JStr ''application/json'')],
              cert = None\<rparr>]\<close>
  by (simp add: Betfair_def fresh_def keep_alive_state get_gbp_funds_state call_aping_trace
        emit_def keep_alive_request_def call_aping_request_def envelope_def accounts_url_def)

end
